theory Spec2Isabelle
  imports Main "HOL-Library.Sublist" "HOL-Library.Char_ord" "HOL-Library.AList"
begin

section \<open>Python strings\<close>

text \<open>
  Texts are \<^typ>\<open>string\<close>s, one \<^typ>\<open>char\<close> per code point; the model covers the
  code points 0 to 255 and changes the case of the ASCII letters only. The operators
  \<open>sub in s\<close>, \<open>s.startswith(p)\<close> and \<open>s.endswith(p)\<close> are \<^const>\<open>sublist\<close>,
  \<^const>\<open>prefix\<close> and \<^const>\<open>suffix\<close>.
\<close>

definition isspace :: "char \<Rightarrow> bool" where
  "isspace c = ((of_char c :: nat) \<in> set [9, 10, 11, 12, 13, 28, 29, 30, 31, 32, 133, 160])"

definition strip :: "string \<Rightarrow> string" where
  "strip s = rev (dropWhile isspace (rev (dropWhile isspace s)))"

definition upper_char :: "char \<Rightarrow> char" where
  "upper_char c = (if CHR ''a'' \<le> c \<and> c \<le> CHR ''z'' then char_of ((of_char c :: nat) - 32) else c)"

definition lower_char :: "char \<Rightarrow> char" where
  "lower_char c = (if CHR ''A'' \<le> c \<and> c \<le> CHR ''Z'' then char_of ((of_char c :: nat) + 32) else c)"

definition upper :: "string \<Rightarrow> string" where
  "upper s = map upper_char s"

definition lower :: "string \<Rightarrow> string" where
  "lower s = map lower_char s"

text \<open>
  \<open>s.split(sep)\<close> for a non-empty separator: the pieces between the occurrences of
  \<open>sep\<close>, found from left to right without overlap. \<open>cur\<close> is the piece being read.
  Every separator of this program is a non-empty literal (Python raises on an empty one).
\<close>

function split_from :: "string \<Rightarrow> string \<Rightarrow> string \<Rightarrow> string list" where
  "split_from sep cur s =
     (if s = [] then [cur]
      else if sep \<noteq> [] \<and> prefix sep s then cur # split_from sep [] (drop (length sep) s)
      else split_from sep (cur @ [hd s]) (tl s))"
  by pat_completeness auto
termination
  by (relation "measure (\<lambda>(sep, cur, s). length s)") (auto simp: prefix_def)

declare split_from.simps [simp del]

definition py_split :: "string \<Rightarrow> string \<Rightarrow> string list" where
  "py_split sep s = split_from sep [] s"

text \<open>\<open>xs[i]\<close> for \<open>i \<ge> 0\<close>; \<open>None\<close> stands for the IndexError.\<close>

definition getitem :: "'a list \<Rightarrow> nat \<Rightarrow> 'a option" where
  "getitem xs i = (if i < length xs then Some (xs ! i) else None)"

text \<open>\<open>s.find(c)\<close> and \<open>s.rfind(c)\<close> for a single character: an index, or \<open>-1\<close>.\<close>

fun find_from :: "char \<Rightarrow> int \<Rightarrow> string \<Rightarrow> int" where
  "find_from c i [] = -1"
| "find_from c i (x # xs) = (if x = c then i else find_from c (i + 1) xs)"

definition find :: "char \<Rightarrow> string \<Rightarrow> int" where
  "find c s = find_from c 0 s"

definition rfind :: "char \<Rightarrow> string \<Rightarrow> int" where
  "rfind c s = (let k = find c (rev s) in if k < 0 then -1 else int (length s) - 1 - k)"

text \<open>\<open>s[i:j]\<close> for \<open>0 \<le> i\<close> and \<open>0 \<le> j\<close>.\<close>

definition slice :: "string \<Rightarrow> int \<Rightarrow> int \<Rightarrow> string" where
  "slice s i j = take (nat j - nat i) (drop (nat i) s)"

text \<open>\<open>sep.join(xs)\<close>.\<close>

fun join :: "string \<Rightarrow> string list \<Rightarrow> string" where
  "join sep [] = []"
| "join sep [x] = x"
| "join sep (x # y # ys) = x @ sep @ join sep (y # ys)"

text \<open>\<open>str(n)\<close> for an integer.\<close>

fun digits :: "nat \<Rightarrow> string" where
  "digits n = (if n < 10 then [char_of (48 + n)] else digits (n div 10) @ [char_of (48 + n mod 10)])"

declare digits.simps [simp del]

definition str_int :: "int \<Rightarrow> string" where
  "str_int i = (if i < 0 then CHR ''-'' # digits (nat (- i)) else digits (nat i))"

section \<open>Decoded JSON\<close>

text \<open>
  The values \<open>json.loads\<close> returns. An object is the dict in insertion order, each key
  once; a number keeps its literal. The decoder itself belongs to Python's library: the
  parser below takes it as the parameter \<open>loads\<close>, \<open>None\<close> standing for the exception
  it raises on a text that is not JSON.
\<close>

datatype json =
    JNull
  | JBool bool
  | JNumber string
  | JString string
  | JArray "json list"
  | JObject "(string \<times> json) list"

text \<open>
  \<open>key in result\<close> on a decoded value: a key test on a dict, membership in a list, a
  substring test on a string, and a TypeError (\<open>None\<close>) on anything else.
\<close>

fun py_in :: "string \<Rightarrow> json \<Rightarrow> bool option" where
  "py_in k (JObject kvs) = Some (k \<in> set (map fst kvs))"
| "py_in k (JArray xs) = Some (JString k \<in> set xs)"
| "py_in k (JString s) = Some (sublist k s)"
| "py_in k _ = None"

text \<open>\<open>result.get(key, "")\<close>: only a dict has the method (\<open>None\<close>: AttributeError).\<close>

fun py_get :: "json \<Rightarrow> string \<Rightarrow> json option" where
  "py_get (JObject kvs) k = Some (case map_of kvs k of None \<Rightarrow> JString [] | Some v \<Rightarrow> v)"
| "py_get _ k = None"

section \<open>The response parser: \<open>LLMClient._extract_sql_from_response\<close>\<close>

text \<open>
  The dict the parser returns: always the two keys \<open>sql_query\<close> and \<open>explanation\<close>,
  whose values are whatever the decoded JSON held (not always strings).
\<close>

record sql_dict =
  dict_sql_query :: json
  dict_explanation :: json

text \<open>
  The test and the return shared by methods 1, 3 and 4, run inside the method's
  \<open>try\<close>: every exception (\<open>None\<close> of \<^const>\<open>py_in\<close> and \<^const>\<open>py_get\<close>) is swallowed
  by the bare \<open>except: pass\<close>, and a false test falls out of the \<open>if\<close>; both leave the
  method without a result.
\<close>

definition accept_result :: "json \<Rightarrow> sql_dict option" where
  "accept_result result =
     (case py_in ''sql_query'' result of
        None \<Rightarrow> None
      | Some False \<Rightarrow> None
      | Some True \<Rightarrow>
          (case py_in ''explanation'' result of
             None \<Rightarrow> None
           | Some False \<Rightarrow> None
           | Some True \<Rightarrow>
               (case (py_get result ''sql_query'', py_get result ''explanation'') of
                  (Some q, Some e) \<Rightarrow> Some \<lparr>dict_sql_query = q, dict_explanation = e\<rparr>
                | _ \<Rightarrow> None)))"

text \<open>Method 1, the body of \<open>if "```json" in content\<close>.\<close>

definition method1 :: "(string \<Rightarrow> json option) \<Rightarrow> string \<Rightarrow> sql_dict option" where
  "method1 loads content =
     (case getitem (py_split ''```json'' content) 1 of
        None \<Rightarrow> None
      | Some after \<Rightarrow>
          (case getitem (py_split ''```'' after) 0 of
             None \<Rightarrow> None
           | Some inner \<Rightarrow>
               (case loads (strip inner) of
                  None \<Rightarrow> None
                | Some result \<Rightarrow> accept_result result)))"

text \<open>Method 2, the body of \<open>elif "```" in content\<close>.\<close>

definition method2 :: "string \<Rightarrow> sql_dict option" where
  "method2 content =
     (case getitem (py_split ''```'' content) 1 of
        None \<Rightarrow> None
      | Some after \<Rightarrow>
          (case getitem (py_split ''```'' after) 0 of
             None \<Rightarrow> None
           | Some inner \<Rightarrow>
               (let code_content = strip inner in
                if prefix ''sql'' (lower code_content)
                then Some \<lparr>dict_sql_query = JString (strip (drop 3 code_content)),
                            dict_explanation = JString ''Extracted SQL query from code block''\<rparr>
                else Some \<lparr>dict_sql_query = JString code_content,
                            dict_explanation = JString ''Extracted SQL query from code block''\<rparr>)))"

text \<open>The \<open>if\<close>/\<open>elif\<close> of methods 1 and 2: at most one of the two runs.\<close>

definition fenced_methods :: "(string \<Rightarrow> json option) \<Rightarrow> string \<Rightarrow> sql_dict option" where
  "fenced_methods loads content =
     (if sublist ''```json'' content then method1 loads content
      else if sublist ''```'' content then method2 content
      else None)"

text \<open>Method 3: the text from the first \<open>{\<close> to the last \<open>}\<close>.\<close>

definition method3 :: "(string \<Rightarrow> json option) \<Rightarrow> string \<Rightarrow> sql_dict option" where
  "method3 loads content =
     (let start_idx = find CHR ''{'' content;
          end_idx = rfind CHR ''}'' content + 1
      in if start_idx \<ge> 0 \<and> end_idx > start_idx
         then (case loads (slice content start_idx end_idx) of
                 None \<Rightarrow> None
               | Some result \<Rightarrow> accept_result result)
         else None)"

text \<open>Method 4: the whole text.\<close>

definition method4 :: "(string \<Rightarrow> json option) \<Rightarrow> string \<Rightarrow> sql_dict option" where
  "method4 loads content =
     (case loads content of None \<Rightarrow> None | Some result \<Rightarrow> accept_result result)"

text \<open>
  Method 5, the \<open>for line in lines\<close> loop: \<open>capture\<close> and \<open>sql_lines\<close> are its two
  variables, and the \<open>break\<close> returns the lines captured so far.
\<close>

fun capture_lines :: "bool \<Rightarrow> string list \<Rightarrow> string list \<Rightarrow> string list" where
  "capture_lines capture sql_lines [] = sql_lines"
| "capture_lines capture sql_lines (line # lines) =
     (if sublist ''SELECT'' (upper line) \<or> capture
      then (if sublist '';'' line then sql_lines @ [line]
            else capture_lines True (sql_lines @ [line]) lines)
      else capture_lines capture sql_lines lines)"

definition method5 :: "string \<Rightarrow> sql_dict option" where
  "method5 content =
     (if sublist ''SELECT'' (upper content) \<or> sublist ''FROM'' (upper content)
      then (let sql_lines = capture_lines False [] (py_split ''\<newline>'' content) in
            if sql_lines \<noteq> []
            then (let sql_query = strip (join '' '' sql_lines);
                      sql_query = (if suffix '';'' sql_query then butlast sql_query else sql_query)
                  in Some \<lparr>dict_sql_query = JString sql_query,
                            dict_explanation = JString ''Extracted SQL query from text''\<rparr>)
            else None)
      else None)"

text \<open>The last resort.\<close>

definition parse_error_dict :: "string \<Rightarrow> sql_dict" where
  "parse_error_dict content =
     \<lparr>dict_sql_query = JString [],
      dict_explanation = JString (''Error parsing LLM response: '' @ take 100 content @ ''...'')\<rparr>"

text \<open>Methods 3 to 6, which follow the \<open>if\<close>/\<open>elif\<close> one after the other.\<close>

definition later_methods :: "(string \<Rightarrow> json option) \<Rightarrow> string \<Rightarrow> sql_dict" where
  "later_methods loads content =
     (case method3 loads content of
        Some d \<Rightarrow> d
      | None \<Rightarrow>
          (case method4 loads content of
             Some d \<Rightarrow> d
           | None \<Rightarrow>
               (case method5 content of
                  Some d \<Rightarrow> d
                | None \<Rightarrow> parse_error_dict content)))"

definition extract_sql_from_response :: "(string \<Rightarrow> json option) \<Rightarrow> string \<Rightarrow> sql_dict" where
  "extract_sql_from_response loads raw =
     (let content = strip raw in
      case fenced_methods loads content of
        Some d \<Rightarrow> d
      | None \<Rightarrow> later_methods loads content)"

section \<open>A decoder for the concrete runs\<close>

text \<open>
  A model of \<open>json.loads\<close> for evaluating the program on concrete texts: RFC 8259 with
  the decoder's extensions \<open>NaN\<close>, \<open>Infinity\<close> and \<open>-Infinity\<close>; a \<open>\u\<close> escape is
  decoded up to code point 255 and refused above. The general theorems do not use it:
  they hold for every decoder. \<open>fuel\<close> bounds the number of nested calls; the length
  of the text is enough, since every call reads a character.
\<close>

definition json_ws :: "char \<Rightarrow> bool" where
  "json_ws c = (c \<in> set '' \<newline>'' \<or> (of_char c :: nat) = 9 \<or> (of_char c :: nat) = 13)"

definition skip_ws :: "string \<Rightarrow> string" where
  "skip_ws s = dropWhile json_ws s"

definition is_digit :: "char \<Rightarrow> bool" where
  "is_digit c = (CHR ''0'' \<le> c \<and> c \<le> CHR ''9'')"

definition hex_val :: "char \<Rightarrow> nat option" where
  "hex_val c =
     (if is_digit c then Some ((of_char c :: nat) - 48)
      else if CHR ''a'' \<le> c \<and> c \<le> CHR ''f'' then Some ((of_char c :: nat) - 87)
      else if CHR ''A'' \<le> c \<and> c \<le> CHR ''F'' then Some ((of_char c :: nat) - 55)
      else None)"

definition unescape :: "char \<Rightarrow> char option" where
  "unescape e =
     (if e = CHR 0x22 \<or> e = CHR 0x5C \<or> e = CHR ''/'' then Some e
      else if e = CHR ''b'' then Some (CHR 0x08)
      else if e = CHR ''f'' then Some (CHR 0x0C)
      else if e = CHR ''n'' then Some (CHR 0x0A)
      else if e = CHR ''r'' then Some (CHR 0x0D)
      else if e = CHR ''t'' then Some (CHR 0x09)
      else None)"

text \<open>The characters of a string literal after its opening quote, up to the closing one.\<close>

fun string_body :: "string \<Rightarrow> string \<Rightarrow> (string \<times> string) option" where
  "string_body acc [] = None"
| "string_body acc (c # cs) =
     (if c = CHR 0x22 then Some (acc, cs)
      else if c = CHR 0x5C then
        (case cs of
           [] \<Rightarrow> None
         | e # cs' \<Rightarrow>
             (if e = CHR ''u'' then
                (case cs' of
                   a # b # c # d # rest \<Rightarrow>
                     (case (hex_val a, hex_val b, hex_val c, hex_val d) of
                        (Some 0, Some 0, Some h, Some l) \<Rightarrow> string_body (acc @ [char_of (16 * h + l)]) rest
                      | _ \<Rightarrow> None)
                 | _ \<Rightarrow> None)
              else (case unescape e of
                      None \<Rightarrow> None
                    | Some ch \<Rightarrow> string_body (acc @ [ch]) cs')))
      else if (of_char c :: nat) < 32 then None
      else string_body (acc @ [c]) cs)"

text \<open>The number grammar: \<open>-?(0|[1-9][0-9]*)(\.[0-9]+)?([eE][-+]?[0-9]+)?\<close>.\<close>

definition exponent_ok :: "string \<Rightarrow> bool" where
  "exponent_ok s =
     (case s of
        [] \<Rightarrow> True
      | e # r \<Rightarrow>
          (e = CHR ''e'' \<or> e = CHR ''E'') \<and>
          (let ds = (case r of [] \<Rightarrow> [] | x # r' \<Rightarrow> if x = CHR ''+'' \<or> x = CHR ''-'' then r' else r)
           in ds \<noteq> [] \<and> list_all is_digit ds))"

definition number_ok :: "string \<Rightarrow> bool" where
  "number_ok s =
     (let s1 = (case s of [] \<Rightarrow> [] | x # r \<Rightarrow> if x = CHR ''-'' then r else s);
          ip = takeWhile is_digit s1;
          r1 = dropWhile is_digit s1
      in ip \<noteq> [] \<and> (ip = ''0'' \<or> hd ip \<noteq> CHR ''0'') \<and>
         (case r1 of
            [] \<Rightarrow> True
          | x # r \<Rightarrow>
              if x = CHR ''.''
              then takeWhile is_digit r \<noteq> [] \<and> exponent_ok (dropWhile is_digit r)
              else exponent_ok r1))"

definition number_char :: "char \<Rightarrow> bool" where
  "number_char c = (is_digit c \<or> c \<in> set ''-+.eE'')"

text \<open>A literal, a number or a string at the head of the text.\<close>

definition scalar :: "string \<Rightarrow> (json \<times> string) option" where
  "scalar s =
     (if prefix ''null'' s then Some (JNull, drop 4 s)
      else if prefix ''true'' s then Some (JBool True, drop 4 s)
      else if prefix ''false'' s then Some (JBool False, drop 5 s)
      else if prefix ''NaN'' s then Some (JNumber ''NaN'', drop 3 s)
      else if prefix ''Infinity'' s then Some (JNumber ''Infinity'', drop 8 s)
      else if prefix ''-Infinity'' s then Some (JNumber ''-Infinity'', drop 9 s)
      else if prefix [CHR 0x22] s then
        (case string_body [] (tl s) of None \<Rightarrow> None | Some (str, r) \<Rightarrow> Some (JString str, r))
      else (let tok = takeWhile number_char s in
            if number_ok tok then Some (JNumber tok, dropWhile number_char s) else None))"

text \<open>
  \<open>parse_value\<close> reads one value; \<open>parse_members\<close> reads the members of an object from
  the opening quote of a key, a later member replacing an earlier one of the same key;
  \<open>parse_elements\<close> reads the elements of an array from the first character of one.
\<close>

fun parse_value :: "nat \<Rightarrow> string \<Rightarrow> (json \<times> string) option"
  and parse_members :: "nat \<Rightarrow> (string \<times> json) list \<Rightarrow> string \<Rightarrow> (json \<times> string) option"
  and parse_elements :: "nat \<Rightarrow> json list \<Rightarrow> string \<Rightarrow> (json \<times> string) option"
where
  "parse_value 0 s = None"
| "parse_value (Suc fuel) s =
     (case s of
        [] \<Rightarrow> None
      | c # r \<Rightarrow>
          if c = CHR ''{'' then
            (case skip_ws r of
               [] \<Rightarrow> None
             | d # r' \<Rightarrow> if d = CHR ''}'' then Some (JObject [], r') else parse_members fuel [] (d # r'))
          else if c = CHR ''['' then
            (case skip_ws r of
               [] \<Rightarrow> None
             | d # r' \<Rightarrow> if d = CHR '']'' then Some (JArray [], r') else parse_elements fuel [] (d # r'))
          else scalar s)"
| "parse_members 0 kvs s = None"
| "parse_members (Suc fuel) kvs s =
     (case s of
        [] \<Rightarrow> None
      | q # r \<Rightarrow>
          if q \<noteq> CHR 0x22 then None
          else (case string_body [] r of
                  None \<Rightarrow> None
                | Some (k, r1) \<Rightarrow>
                    (case skip_ws r1 of
                       [] \<Rightarrow> None
                     | colon # r2 \<Rightarrow>
                         if colon \<noteq> CHR '':'' then None
                         else (case parse_value fuel (skip_ws r2) of
                                 None \<Rightarrow> None
                               | Some (v, r3) \<Rightarrow>
                                   (let kvs' = AList.update k v kvs in
                                    case skip_ws r3 of
                                      [] \<Rightarrow> None
                                    | d # r4 \<Rightarrow>
                                        if d = CHR ''}'' then Some (JObject kvs', r4)
                                        else if d = CHR '','' then parse_members fuel kvs' (skip_ws r4)
                                        else None)))))"
| "parse_elements 0 xs s = None"
| "parse_elements (Suc fuel) xs s =
     (case parse_value fuel s of
        None \<Rightarrow> None
      | Some (v, r) \<Rightarrow>
          (case skip_ws r of
             [] \<Rightarrow> None
           | d # r' \<Rightarrow>
               if d = CHR '']'' then Some (JArray (xs @ [v]), r')
               else if d = CHR '','' then parse_elements fuel (xs @ [v]) (skip_ws r')
               else None))"

definition json_loads :: "string \<Rightarrow> json option" where
  "json_loads s =
     (case parse_value (Suc (length s)) (skip_ws s) of
        None \<Rightarrow> None
      | Some (v, r) \<Rightarrow> if skip_ws r = [] then Some v else None)"

section \<open>The environment: the completion endpoint and the database driver\<close>

text \<open>
  The program talks to two services. Each is a function of a state of the world \<open>'w\<close>,
  which it may change, so that two calls with the same arguments can answer differently.

  The prompt of a completion is fixed text around the values listed here. The reply is
  the outcome of the \<open>try\<close> block up to the point where the parser has a string to work
  on (\<open>get_completion\<close>, the read of \<open>choices[0].message.content\<close>): that string, or
  the text \<open>str(e)\<close> of the exception raised until then, which \<open>except Exception\<close>
  catches.
\<close>

datatype llm_request =
    Generate_prompt string string "string option"
  | Improve_prompt string string string string

datatype completion = Raised string | Content string

text \<open>
  The driver's answer to \<open>cursor.execute(sql)\<close> followed by \<open>cursor.fetchall()\<close>: the
  column names of \<open>cursor.description\<close> with the fetched rows, an \<open>sqlite3.Error\<close> with
  its text, or an exception of another class.
\<close>

datatype exc = ValidationError | IndexError | DriverException string

datatype 'v driver_reply =
    Fetched "string list" "'v list list"
  | Sqlite_error string
  | Other_exception string

record ('w, 'v) environment =
  llm_complete :: "'w \<Rightarrow> llm_request \<Rightarrow> completion \<times> 'w"
  cursor_execute :: "'w \<Rightarrow> string \<Rightarrow> 'v driver_reply \<times> 'w"
  json_loads_of :: "string \<Rightarrow> json option"

section \<open>The client: \<open>LLMClient.generate_sql\<close> and \<open>LLMClient.improve_sql\<close>\<close>

definition llm_generate_sql ::
  "('w, 'v) environment \<Rightarrow> 'w \<Rightarrow> string \<Rightarrow> string \<Rightarrow> string option \<Rightarrow> sql_dict \<times> 'w" where
  "llm_generate_sql env w query schema_info error_message =
     (case llm_complete env w (Generate_prompt query schema_info error_message) of
        (Content content, w') \<Rightarrow> (extract_sql_from_response (json_loads_of env) content, w')
      | (Raised e, w') \<Rightarrow>
          (\<lparr>dict_sql_query = JString [],
            dict_explanation = JString (''Error generating SQL: '' @ e)\<rparr>, w'))"

definition llm_improve_sql ::
  "('w, 'v) environment \<Rightarrow> 'w \<Rightarrow> string \<Rightarrow> string \<Rightarrow> string \<Rightarrow> string \<Rightarrow> sql_dict \<times> 'w" where
  "llm_improve_sql env w query schema_info original_sql error_message =
     (case llm_complete env w (Improve_prompt query schema_info original_sql error_message) of
        (Content content, w') \<Rightarrow> (extract_sql_from_response (json_loads_of env) content, w')
      | (Raised e, w') \<Rightarrow>
          (\<lparr>dict_sql_query = JString [],
            dict_explanation = JString (''Error improving SQL: '' @ e)\<rparr>, w'))"

section \<open>The models of \<open>models.py\<close>\<close>

text \<open>
  Fields that share a name in the source are told apart here (and \<open>context\<close> is
  \<open>request_context\<close>): the \<open>error\<close> of an
  attempt is \<open>attempt_error\<close>, the \<open>explanation\<close> and \<open>error\<close> of the agent's response
  are \<open>final_explanation\<close> and \<open>final_error\<close>. \<open>user_purchase_behavior\<close>, which
  \<open>process_query\<close> never sets, is left out.
\<close>

record SQLGenerationRequest =
  query :: string
  request_context :: "string option"

record SQLGenerationResponse =
  sql_query :: string
  explanation :: string

record 'v SQLQueryResult =
  columns :: "string list"
  rows :: "'v list list"
  row_count :: int

record SQLImprovementAttempt =
  attempt :: int
  sql :: string
  attempt_error :: string

record 'v SQLAgentResponse =
  natural_query :: string
  generated_sql :: string
  final_explanation :: string
  query_result :: "'v SQLQueryResult option"
  final_error :: "string option"
  improvement_history :: "SQLImprovementAttempt list option"

text \<open>
  The constructor \<open>SQLGenerationResponse(sql_query=..., explanation=...)\<close>: both fields
  are declared \<open>str\<close>, and the validation raises on a value that is not a string.
\<close>

definition new_SQLGenerationResponse :: "json \<Rightarrow> json \<Rightarrow> exc + SQLGenerationResponse" where
  "new_SQLGenerationResponse q e =
     (case (q, e) of
        (JString q', JString e') \<Rightarrow> Inr \<lparr>sql_query = q', explanation = e'\<rparr>
      | _ \<Rightarrow> Inl ValidationError)"

section \<open>The agent: \<open>SQLAgent\<close>\<close>

record SQLAgent =
  max_retries :: int
  schema_info :: string

definition generate_sql ::
  "SQLAgent \<Rightarrow> ('w, 'v) environment \<Rightarrow> 'w \<Rightarrow> SQLGenerationRequest \<Rightarrow> string option
     \<Rightarrow> (exc + SQLGenerationResponse) \<times> 'w" where
  "generate_sql self env w request error_message =
     (case llm_generate_sql env w (query request) (schema_info self) error_message of
        (response, w') \<Rightarrow>
          (new_SQLGenerationResponse (dict_sql_query response) (dict_explanation response), w'))"

definition improve_sql ::
  "SQLAgent \<Rightarrow> ('w, 'v) environment \<Rightarrow> 'w \<Rightarrow> string \<Rightarrow> string \<Rightarrow> string
     \<Rightarrow> (exc + SQLGenerationResponse) \<times> 'w" where
  "improve_sql self env w natural_query' failed_sql error_message =
     (case llm_improve_sql env w natural_query' (schema_info self) failed_sql error_message of
        (response, w') \<Rightarrow>
          (new_SQLGenerationResponse (dict_sql_query response) (dict_explanation response), w'))"

text \<open>
  \<open>row[col]\<close> on an \<open>sqlite3.Row\<close>: the value under the first column whose name is
  \<open>col\<close>, letter case apart; \<open>None\<close> is the IndexError of a name the row does not have.
\<close>

fun row_getitem :: "string list \<Rightarrow> 'v list \<Rightarrow> string \<Rightarrow> 'v option" where
  "row_getitem [] vs col = None"
| "row_getitem (name # names) [] col = None"
| "row_getitem (name # names) (v # vs) col =
     (if lower name = lower col then Some v else row_getitem names vs col)"

text \<open>
  \<open>execute_sql\<close> returns the pair \<open>(result, error)\<close>; only an \<open>sqlite3.Error\<close> is
  caught.
\<close>

definition execute_sql ::
  "('w, 'v) environment \<Rightarrow> 'w \<Rightarrow> string
     \<Rightarrow> (exc + ('v SQLQueryResult option \<times> string option)) \<times> 'w" where
  "execute_sql env w sql_query' =
     (case cursor_execute env w sql_query' of
        (Sqlite_error e, w') \<Rightarrow> (Inr (None, Some (''SQL execution error: '' @ e)), w')
      | (Other_exception e, w') \<Rightarrow> (Inl (DriverException e), w')
      | (Fetched description fetched, w') \<Rightarrow>
          if fetched = [] then (Inr (Some \<lparr>columns = [], rows = [], row_count = 0\<rparr>, None), w')
          else (case those (map (\<lambda>row. those (map (row_getitem description row) description)) fetched) of
                  None \<Rightarrow> (Inl IndexError, w')
                | Some row_data \<Rightarrow>
                    (Inr (Some \<lparr>columns = description, rows = row_data,
                                 row_count = int (length row_data)\<rparr>, None), w')))"

section \<open>The repair loop: \<open>SQLAgent.process_query\<close>\<close>

text \<open>
  The calls and the appends of a run, in program order: a ghost variable of the model,
  which lets a theorem speak of what a run did and in which order.
\<close>

datatype 'v event =
    Generate "exc + SQLGenerationResponse"
  | Execute string "exc + ('v SQLQueryResult option \<times> string option)"
  | Append SQLImprovementAttempt
  | Improve string string "exc + SQLGenerationResponse"

text \<open>The local variables of \<open>process_query\<close> in its loop, the world and the trace.\<close>

record ('w, 'v) locals =
  attempts :: int
  current_sql :: string
  current_explanation :: string
  result :: "'v SQLQueryResult option"
  error :: "string option"
  history :: "SQLImprovementAttempt list"
  world :: 'w
  trace :: "'v event list"

text \<open>\<open>not error\<close> for an optional string: true of \<open>None\<close> and of the empty string.\<close>

definition falsy :: "string option \<Rightarrow> bool" where
  "falsy e = (e = None \<or> e = Some [])"

text \<open>
  One pass through the body of the \<open>while\<close>: it ends the loop (\<open>Break\<close>, by a \<open>break\<close>
  or by an exception, which is then the first component) or goes round again
  (\<open>Continue\<close>).
\<close>

datatype 'a step = Break "exc option" 'a | Continue 'a

definition loop_body ::
  "SQLAgent \<Rightarrow> ('w, 'v) environment \<Rightarrow> string \<Rightarrow> ('w, 'v) locals \<Rightarrow> ('w, 'v) locals step" where
  "loop_body self env natural_query' st =
     (case execute_sql env (world st) (current_sql st) of
        (Inl e, w1) \<Rightarrow>
          Break (Some e) (st\<lparr>world := w1, trace := trace st @ [Execute (current_sql st) (Inl e)]\<rparr>)
      | (Inr (res, err), w1) \<Rightarrow>
          (let st1 = st\<lparr>result := res, error := err, world := w1,
                        trace := trace st @ [Execute (current_sql st) (Inr (res, err))]\<rparr>
           in if falsy err then Break None st1
              else
                (let a = \<lparr>attempt = attempts st1 + 1, sql = current_sql st1,
                          attempt_error = the err\<rparr>;
                     st2 = st1\<lparr>history := history st1 @ [a], trace := trace st1 @ [Append a]\<rparr>
                 in case improve_sql self env (world st2) natural_query' (current_sql st2) (the err) of
                      (improved, w2) \<Rightarrow>
                        (let st3 = st2\<lparr>world := w2,
                                       trace := trace st2 @ [Improve (current_sql st2) (the err) improved]\<rparr>
                         in case improved of
                              Inl e \<Rightarrow> Break (Some e) st3
                            | Inr improved_response \<Rightarrow>
                                if sql_query improved_response = [] \<or>
                                   sql_query improved_response = current_sql st3
                                then Break None st3
                                else Continue
                                  (st3\<lparr>current_sql := sql_query improved_response,
                                       current_explanation :=
                                         current_explanation st3 @ ''\<newline>\<newline>Improved SQL (attempt '' @
                                         str_int (attempts st3 + 1) @ ''): '' @
                                         explanation improved_response,
                                       attempts := attempts st3 + 1\<rparr>)))))"

lemma loop_body_attempts:
  "loop_body self env nq st = Continue st' \<Longrightarrow> attempts st' = attempts st + 1"
  by (auto simp: loop_body_def Let_def split: prod.splits sum.splits if_splits)

function repair_loop ::
  "SQLAgent \<Rightarrow> ('w, 'v) environment \<Rightarrow> string \<Rightarrow> ('w, 'v) locals
     \<Rightarrow> exc option \<times> ('w, 'v) locals" where
  "repair_loop self env natural_query' st =
     (if attempts st < max_retries self
      then (case loop_body self env natural_query' st of
              Break e st' \<Rightarrow> (e, st')
            | Continue st' \<Rightarrow> repair_loop self env natural_query' st')
      else (None, st))"
  by pat_completeness auto
termination
  by (relation "measure (\<lambda>(self, env, nq, st). nat (max_retries self - attempts st))")
     (auto dest: loop_body_attempts)

declare repair_loop.simps [simp del]

definition process_query ::
  "SQLAgent \<Rightarrow> ('w, 'v) environment \<Rightarrow> 'w \<Rightarrow> string
     \<Rightarrow> (exc + 'v SQLAgentResponse) \<times> 'w \<times> 'v event list" where
  "process_query self env w natural_query' =
     (case generate_sql self env w \<lparr>query = natural_query', request_context = None\<rparr> None of
        (Inl e, w0) \<Rightarrow> (Inl e, w0, [Generate (Inl e)])
      | (Inr sql_response, w0) \<Rightarrow>
          if sql_query sql_response = []
          then (Inr \<lparr>natural_query = natural_query', generated_sql = [],
                     final_explanation = ''Failed to generate SQL: '' @ explanation sql_response,
                     query_result = None,
                     final_error = Some ''Could not generate SQL query'',
                     improvement_history = None\<rparr>,
                w0, [Generate (Inr sql_response)])
          else (case repair_loop self env natural_query'
                       \<lparr>attempts = 0, current_sql = sql_query sql_response,
                        current_explanation = explanation sql_response,
                        result = None, error = None, history = [], world = w0,
                        trace = [Generate (Inr sql_response)]\<rparr> of
                  (Some e, st) \<Rightarrow> (Inl e, world st, trace st)
                | (None, st) \<Rightarrow>
                    (Inr \<lparr>natural_query = natural_query', generated_sql = current_sql st,
                          final_explanation = current_explanation st,
                          query_result = result st,
                          final_error = error st,
                          improvement_history = (if history st \<noteq> [] then Some (history st) else None)\<rparr>,
                     world st, trace st)))"

text \<open>The attempt history of a response as a list: an absent history has no record.\<close>

definition attempts_of :: "'v SQLAgentResponse \<Rightarrow> SQLImprovementAttempt list" where
  "attempts_of r = (case improvement_history r of None \<Rightarrow> [] | Some h \<Rightarrow> h)"

section \<open>Observations on a trace\<close>

text \<open>The records appended in a trace, in order, and the repair calls in it.\<close>

fun appended :: "'v event list \<Rightarrow> SQLImprovementAttempt list" where
  "appended [] = []"
| "appended (Append a # es) = a # appended es"
| "appended (_ # es) = appended es"


text \<open>
  The pair \<open>(result, error)\<close> after the events of a trace, from the pair before them:
  every execution that returns assigns both.
\<close>

fun outcome_after ::
  "'v SQLQueryResult option \<times> string option \<Rightarrow> 'v event list
     \<Rightarrow> 'v SQLQueryResult option \<times> string option" where
  "outcome_after p [] = p"
| "outcome_after p (Execute s (Inr p') # es) = outcome_after p' es"
| "outcome_after p (_ # es) = outcome_after p es"

text \<open>The exception a trace ends with, if it does.\<close>

fun raised_by :: "'v event list \<Rightarrow> exc option" where
  "raised_by [] = None"
| "raised_by (Execute s (Inl e) # es) = Some e"
| "raised_by (Improve s m (Inl e) # es) = Some e"
| "raised_by (_ # es) = raised_by es"

text \<open>
  The traces of the loop entered with \<open>attempts = n\<close> and \<open>current_sql = s\<close> under the
  budget \<open>mx\<close>: one rule for each way through the body, and one for the exit at the
  loop's test.
\<close>

inductive loop_trace :: "int \<Rightarrow> int \<Rightarrow> string \<Rightarrow> 'v event list \<Rightarrow> bool" where
  exhausted: "\<not> n < mx \<Longrightarrow> loop_trace mx n s []"
| exec_raised: "n < mx \<Longrightarrow> loop_trace mx n s [Execute s (Inl e)]"
| success: "n < mx \<Longrightarrow> loop_trace mx n s [Execute s (Inr (Some r, None))]"
| improve_raised: "n < mx \<Longrightarrow> m \<noteq> [] \<Longrightarrow>
     loop_trace mx n s [Execute s (Inr (None, Some m)),
                        Append \<lparr>attempt = n + 1, sql = s, attempt_error = m\<rparr>,
                        Improve s m (Inl e)]"
| stagnant: "n < mx \<Longrightarrow> m \<noteq> [] \<Longrightarrow> sql_query g = [] \<or> sql_query g = s \<Longrightarrow>
     loop_trace mx n s [Execute s (Inr (None, Some m)),
                        Append \<lparr>attempt = n + 1, sql = s, attempt_error = m\<rparr>,
                        Improve s m (Inr g)]"
| repaired: "n < mx \<Longrightarrow> m \<noteq> [] \<Longrightarrow> sql_query g \<noteq> [] \<Longrightarrow> sql_query g \<noteq> s \<Longrightarrow>
     loop_trace mx (n + 1) (sql_query g) rest \<Longrightarrow>
     loop_trace mx n s (Execute s (Inr (None, Some m)) #
                        Append \<lparr>attempt = n + 1, sql = s, attempt_error = m\<rparr> #
                        Improve s m (Inr g) # rest)"

section \<open>A scripted environment for concrete runs\<close>

text \<open>
  The world is the list of completions and the list of driver answers still to come;
  each call takes the next one. An exhausted endpoint refuses the connection, an
  exhausted driver reports a locked database. The decoder is \<^const>\<open>json_loads\<close>.
\<close>

definition scripted :: "(completion list \<times> 'v driver_reply list, 'v) environment" where
  "scripted =
     \<lparr>llm_complete = (\<lambda>(cs, ds) req.
        case cs of [] \<Rightarrow> (Raised ''connection refused'', ([], ds)) | c # cs' \<Rightarrow> (c, (cs', ds))),
      cursor_execute = (\<lambda>(cs, ds) q.
        case ds of [] \<Rightarrow> (Sqlite_error ''database is locked'', (cs, [])) | d # ds' \<Rightarrow> (d, (cs, ds'))),
      json_loads_of = json_loads\<rparr>"

definition agent :: "int \<Rightarrow> SQLAgent" where
  "agent n = \<lparr>max_retries = n, schema_info = ''Database Schema:''\<rparr>"

text \<open>
  Four worlds: a generator that repeats its failing answer, one that repairs a misspelt
  table name, one whose database is locked whatever it is asked, and an endpoint that
  refuses the connection.
\<close>

definition stagnant_world :: "completion list \<times> int driver_reply list" where
  "stagnant_world = ([Content ''SELECT nme FROM customers;'', Content ''SELECT nme FROM customers;''],
                     [Sqlite_error ''no such column: nme''])"

definition repaired_world :: "completion list \<times> int driver_reply list" where
  "repaired_world =
     ([Content ''{\"sql_query\": \"SELECT * FROM custmers;\", \"explanation\": \"All customers\"}'',
       Content ''{\"sql_query\": \"SELECT * FROM customers;\", \"explanation\": \"Fixed the table name\"}''],
      [Sqlite_error ''no such table: custmers'', Fetched [''customer_id'', ''age''] [[1, 34], [2, 51]]])"

definition failing_world :: "completion list \<times> int driver_reply list" where
  "failing_world =
     ([Content ''SELECT a FROM t;'', Content ''SELECT b FROM t;'', Content ''SELECT c FROM t;''], [])"

definition refused_world :: "completion list \<times> int driver_reply list" where
  "refused_world = ([], [])"

text \<open>A generator that answers with a JSON \<open>null\<close> for the query.\<close>

definition null_world :: "completion list \<times> int driver_reply list" where
  "null_world =
     ([Content ''{\"sql_query\": null, \"explanation\": \"The schema has no table about the weather.\"}''], [])"

section \<open>The parser as the specification words it\<close>









section \<open>The execution adapter\<close>

lemma execute_sql_result:
  "(\<exists>e w1. execute_sql env w q = (Inl e, w1)) \<or>
   (\<exists>r w1. execute_sql env w q = (Inr (Some r, None), w1)) \<or>
   (\<exists>m w1. execute_sql env w q = (Inr (None, Some m), w1) \<and> m \<noteq> [])"
  by (simp add: execute_sql_def split: prod.splits driver_reply.splits option.splits)

lemma execute_sql_cases:
  obtains (raised) e w1 where "execute_sql env w q = (Inl e, w1)"
  | (success) r w1 where "execute_sql env w q = (Inr (Some r, None), w1)"
  | (failure) m w1 where "execute_sql env w q = (Inr (None, Some m), w1)" "m \<noteq> []"
  using execute_sql_result [of env w q] by blast

lemma those_length: "those xs = Some ys \<Longrightarrow> length ys = length xs"
  by (induction xs arbitrary: ys) (auto split: option.splits)

lemma execute_sql_success:
  assumes "execute_sql env w q = (Inr (Some r, e), w')"
  shows "\<exists>d fs. cursor_execute env w q = (Fetched d fs, w') \<and> e = None \<and>
           (if fs = [] then r = \<lparr>columns = [], rows = [], row_count = 0\<rparr>
            else \<exists>row_data. length row_data = length fs \<and>
                   r = \<lparr>columns = d, rows = row_data, row_count = int (length row_data)\<rparr>)"
proof -
  obtain rep w1 where rep: "cursor_execute env w q = (rep, w1)"
    by (cases "cursor_execute env w q")
  show ?thesis
  proof (cases rep)
    case (Fetched d fs)
    show ?thesis
    proof (cases "fs = []")
      case True
      with assms rep Fetched show ?thesis by (auto simp: execute_sql_def)
    next
      case False
      with assms rep Fetched obtain row_data where
        rd: "those (map (\<lambda>row. those (map (row_getitem d row) d)) fs) = Some row_data"
        and r: "r = \<lparr>columns = d, rows = row_data, row_count = int (length row_data)\<rparr>"
          "e = None" "w' = w1"
        by (auto simp: execute_sql_def split: option.splits)
      from those_length [OF rd] have "length row_data = length fs" by simp
      with r rep Fetched False show ?thesis by auto
    qed
  next
    case (Sqlite_error m)
    with assms rep show ?thesis by (simp add: execute_sql_def)
  next
    case (Other_exception m)
    with assms rep show ?thesis by (simp add: execute_sql_def)
  qed
qed

text \<open>
  C7. Every successful outcome of \<open>execute_sql\<close> has \<open>row_count = len(rows)\<close>, comes
  without an error, and has no columns when it has no rows. Its \<open>columns\<close> are empty
  exactly when its \<open>rows\<close> are, given that the driver reports at least one column
  whenever it fetched a row: the adapter copies the column names of
  \<open>cursor.description\<close>. A statement that fetches no row returns the success with no
  columns, no rows and the count 0, not a failure.
\<close>

theorem execute_sql_success_shape:
  "(execute_sql env w q = (Inr (Some r, e), w') \<longrightarrow>
      row_count r = int (length (rows r)) \<and> e = None \<and> (rows r = [] \<longrightarrow> columns r = [])) \<and>
   (execute_sql env w q = (Inr (Some r, e), w') \<and>
    (\<forall>d fs. fst (cursor_execute env w q) = Fetched d fs \<and> fs \<noteq> [] \<longrightarrow> d \<noteq> []) \<longrightarrow>
      (columns r = [] \<longleftrightarrow> rows r = [])) \<and>
   (cursor_execute env w q = (Fetched d [], w') \<longrightarrow>
      execute_sql env w q = (Inr (Some \<lparr>columns = [], rows = [], row_count = 0\<rparr>, None), w'))"
proof (intro conjI)
  show "execute_sql env w q = (Inr (Some r, e), w') \<longrightarrow>
      row_count r = int (length (rows r)) \<and> e = None \<and> (rows r = [] \<longrightarrow> columns r = [])"
  proof
    assume "execute_sql env w q = (Inr (Some r, e), w')"
    from execute_sql_success [OF this] show
      "row_count r = int (length (rows r)) \<and> e = None \<and> (rows r = [] \<longrightarrow> columns r = [])"
      by (auto split: if_splits)
  qed
  show "execute_sql env w q = (Inr (Some r, e), w') \<and>
    (\<forall>d fs. fst (cursor_execute env w q) = Fetched d fs \<and> fs \<noteq> [] \<longrightarrow> d \<noteq> []) \<longrightarrow>
      (columns r = [] \<longleftrightarrow> rows r = [])"
  proof
    assume a: "execute_sql env w q = (Inr (Some r, e), w') \<and>
      (\<forall>d fs. fst (cursor_execute env w q) = Fetched d fs \<and> fs \<noteq> [] \<longrightarrow> d \<noteq> [])"
    then have run: "execute_sql env w q = (Inr (Some r, e), w')" by simp
    from execute_sql_success [OF run] a show "columns r = [] \<longleftrightarrow> rows r = []"
      by (auto split: if_splits)
  qed
  show "cursor_execute env w q = (Fetched d [], w') \<longrightarrow>
      execute_sql env w q = (Inr (Some \<lparr>columns = [], rows = [], row_count = 0\<rparr>, None), w')"
    by (simp add: execute_sql_def)
qed

theorem execute_sql_success_shape_witness:
  "execute_sql scripted ([], [Fetched [''id'', ''name''] [[1, 10], [2, 20 :: int]]]) ''SELECT id, name FROM t''
     = (Inr (Some \<lparr>columns = [''id'', ''name''], rows = [[1, 10], [2, 20]], row_count = 2\<rparr>, None), ([], [])) \<and>
   row_count \<lparr>columns = [''id'', ''name''], rows = [[1, 10], [2, 20 :: int]], row_count = 2\<rparr>
     = int (length (rows \<lparr>columns = [''id'', ''name''], rows = [[1, 10], [2, 20 :: int]], row_count = 2\<rparr>)) \<and>
   (columns \<lparr>columns = [''id'', ''name''], rows = [[1, 10], [2, 20 :: int]], row_count = 2\<rparr> = []) =
   (rows \<lparr>columns = [''id'', ''name''], rows = [[1, 10], [2, 20 :: int]], row_count = 2\<rparr> = []) \<and>
   execute_sql scripted ([], [Fetched [''id''] ([] :: int list list)]) ''SELECT id FROM t WHERE 0''
     = (Inr (Some \<lparr>columns = [], rows = [], row_count = 0\<rparr>, None), ([], []))"
proof -
  let ?w = "([], [Fetched [''id'', ''name''] [[1, 10], [2, 20 :: int]]]) :: completion list \<times> int driver_reply list"
  let ?v = "([], [Fetched [''id''] []]) :: completion list \<times> int driver_reply list"
  let ?r = "\<lparr>columns = [''id'', ''name''], rows = [[1, 10], [2, 20 :: int]], row_count = 2\<rparr>"
  have run: "execute_sql scripted ?w ''SELECT id, name FROM t'' = (Inr (Some ?r, None), ([], []))"
    by code_simp
  have drv: "\<forall>d fs. fst (cursor_execute scripted ?w ''SELECT id, name FROM t'') = Fetched d fs \<and> fs \<noteq> [] \<longrightarrow> d \<noteq> []"
    by (simp add: scripted_def)
  have empty: "cursor_execute scripted ?v ''SELECT id FROM t WHERE 0'' = (Fetched [''id''] [], ([], []))"
    by (simp add: scripted_def)
  note a = execute_sql_success_shape [THEN conjunct1, rule_format, OF run]
  note b = execute_sql_success_shape [THEN conjunct2, THEN conjunct1, rule_format, OF conjI, OF run drv]
  note c = execute_sql_success_shape [THEN conjunct2, THEN conjunct2, rule_format, OF empty]
  from a b c run show ?thesis by simp
qed

section \<open>The loop, one pass at a time\<close>

lemma loop_body_cases:
  obtains
    (exec_raised) e w1 where
      "loop_body self env nq st =
         Break (Some e) (st\<lparr>world := w1, trace := trace st @ [Execute (current_sql st) (Inl e)]\<rparr>)"
  | (success) r w1 where
      "loop_body self env nq st =
         Break None (st\<lparr>result := Some r, error := None, world := w1,
                        trace := trace st @ [Execute (current_sql st) (Inr (Some r, None))]\<rparr>)"
  | (improve_raised) m w2 e where "m \<noteq> []"
      "loop_body self env nq st =
         Break (Some e)
           (st\<lparr>result := None, error := Some m, world := w2,
               history := history st @ [\<lparr>attempt = attempts st + 1, sql = current_sql st, attempt_error = m\<rparr>],
               trace := trace st @
                 [Execute (current_sql st) (Inr (None, Some m)),
                  Append \<lparr>attempt = attempts st + 1, sql = current_sql st, attempt_error = m\<rparr>,
                  Improve (current_sql st) m (Inl e)]\<rparr>)"
  | (stagnant) m w2 g where "m \<noteq> []" "sql_query g = [] \<or> sql_query g = current_sql st"
      "loop_body self env nq st =
         Break None
           (st\<lparr>result := None, error := Some m, world := w2,
               history := history st @ [\<lparr>attempt = attempts st + 1, sql = current_sql st, attempt_error = m\<rparr>],
               trace := trace st @
                 [Execute (current_sql st) (Inr (None, Some m)),
                  Append \<lparr>attempt = attempts st + 1, sql = current_sql st, attempt_error = m\<rparr>,
                  Improve (current_sql st) m (Inr g)]\<rparr>)"
  | (repaired) m w2 g where "m \<noteq> []" "sql_query g \<noteq> []" "sql_query g \<noteq> current_sql st"
      "loop_body self env nq st =
         Continue
           (st\<lparr>result := None, error := Some m, world := w2,
               history := history st @ [\<lparr>attempt = attempts st + 1, sql = current_sql st, attempt_error = m\<rparr>],
               trace := trace st @
                 [Execute (current_sql st) (Inr (None, Some m)),
                  Append \<lparr>attempt = attempts st + 1, sql = current_sql st, attempt_error = m\<rparr>,
                  Improve (current_sql st) m (Inr g)],
               current_sql := sql_query g,
               current_explanation :=
                 current_explanation st @ ''\<newline>\<newline>Improved SQL (attempt '' @
                 str_int (attempts st + 1) @ ''): '' @ explanation g,
               attempts := attempts st + 1\<rparr>)"
proof (cases rule: execute_sql_cases [of env "world st" "current_sql st"])
  case (raised e w1)
  then show ?thesis using exec_raised by (simp add: loop_body_def)
next
  case (success r w1)
  then show ?thesis using that(2) by (simp add: loop_body_def falsy_def)
next
  case (failure m w1)
  obtain imp w2 where imp: "improve_sql self env w1 nq (current_sql st) m = (imp, w2)"
    by (cases "improve_sql self env w1 nq (current_sql st) m")
  show ?thesis
  proof (cases imp)
    case (Inl e)
    with failure imp show ?thesis using improve_raised [of m e w2]
      by (simp add: loop_body_def falsy_def Let_def)
  next
    case (Inr g)
    show ?thesis
    proof (cases "sql_query g = [] \<or> sql_query g = current_sql st")
      case True
      with failure imp Inr show ?thesis using stagnant [of m g w2]
        by (simp add: loop_body_def falsy_def Let_def)
    next
      case False
      with failure imp Inr show ?thesis using repaired [of m g w2]
        by (simp add: loop_body_def falsy_def Let_def)
    qed
  qed
qed

lemma appended_append [simp]: "appended (xs @ ys) = appended xs @ appended ys"
  by (induction xs rule: appended.induct) auto

lemma repair_loop_trace:
  "repair_loop self env nq st = (x, st') \<Longrightarrow>
   \<exists>ext. trace st' = trace st @ ext \<and>
         loop_trace (max_retries self) (attempts st) (current_sql st) ext \<and>
         history st' = history st @ appended ext \<and>
         (result st', error st') = outcome_after (result st, error st) ext \<and>
         x = raised_by ext"
proof (induction self env nq st arbitrary: x st' rule: repair_loop.induct)
  case (1 self env nq st)
  show ?case
  proof (cases "attempts st < max_retries self")
    case False
    with "1.prems" have "st' = st" "x = None" by (simp_all add: repair_loop.simps)
    with False show ?thesis by (auto intro!: exI [of _ "[]"] loop_trace.exhausted)
  next
    case True
    show ?thesis
    proof (cases rule: loop_body_cases [of self env nq st])
      case (exec_raised e w1)
      with True "1.prems" show ?thesis
        by (auto simp: repair_loop.simps intro!: exI [of _ "[Execute (current_sql st) (Inl e)]"] loop_trace.exec_raised)
    next
      case (success r w1)
      with True "1.prems" show ?thesis
        by (auto simp: repair_loop.simps intro!: exI [of _ "[Execute (current_sql st) (Inr (Some r, None))]"] loop_trace.success)
    next
      case (improve_raised m w2 e)
      with True "1.prems" show ?thesis
        by (auto simp: repair_loop.simps intro!: exI [of _ "[Execute (current_sql st) (Inr (None, Some m)),
                  Append \<lparr>attempt = attempts st + 1, sql = current_sql st, attempt_error = m\<rparr>,
                  Improve (current_sql st) m (Inl e)]"] loop_trace.improve_raised)
    next
      case (stagnant m w2 g)
      with True "1.prems" show ?thesis
        by (auto simp: repair_loop.simps intro!: exI [of _ "[Execute (current_sql st) (Inr (None, Some m)),
                  Append \<lparr>attempt = attempts st + 1, sql = current_sql st, attempt_error = m\<rparr>,
                  Improve (current_sql st) m (Inr g)]"] loop_trace.stagnant)
    next
      case (repaired m w2 g)
      let ?st1 = "st\<lparr>result := None, error := Some m, world := w2,
               history := history st @ [\<lparr>attempt = attempts st + 1, sql = current_sql st, attempt_error = m\<rparr>],
               trace := trace st @
                 [Execute (current_sql st) (Inr (None, Some m)),
                  Append \<lparr>attempt = attempts st + 1, sql = current_sql st, attempt_error = m\<rparr>,
                  Improve (current_sql st) m (Inr g)],
               current_sql := sql_query g,
               current_explanation :=
                 current_explanation st @ ''\<newline>\<newline>Improved SQL (attempt '' @
                 str_int (attempts st + 1) @ ''): '' @ explanation g,
               attempts := attempts st + 1\<rparr>"
      from True repaired "1.prems" have rec: "repair_loop self env nq ?st1 = (x, st')"
        by (simp add: repair_loop.simps [of self env nq st])
      from "1.IH" [OF True repaired(4) rec]
      obtain ext where ext: "trace st' = trace ?st1 @ ext"
        "loop_trace (max_retries self) (attempts ?st1) (current_sql ?st1) ext"
        "history st' = history ?st1 @ appended ext"
        "(result st', error st') = outcome_after (result ?st1, error ?st1) ext"
        "x = raised_by ext"
        by blast
      let ?blk = "[Execute (current_sql st) (Inr (None, Some m)),
                  Append \<lparr>attempt = attempts st + 1, sql = current_sql st, attempt_error = m\<rparr>,
                  Improve (current_sql st) m (Inr g)]"
      have "loop_trace (max_retries self) (attempts st) (current_sql st) (?blk @ ext)"
        using loop_trace.repaired [OF True repaired(1,2,3), of ext] ext(2) by simp
      with ext show ?thesis
        by (intro exI [of _ "?blk @ ext"]) simp
    qed
  qed
qed

section \<open>Properties of the loop's traces\<close>

lemma loop_trace_stagnant:
  "loop_trace mx n s ext \<Longrightarrow> ext = pre @ Improve f m (Inr g) # post \<Longrightarrow>
   sql_query g = [] \<or> sql_query g = f \<Longrightarrow>
   post = [] \<and> (\<exists>pre' k. pre = pre' @ [Execute f (Inr (None, Some m)),
                                        Append \<lparr>attempt = k, sql = f, attempt_error = m\<rparr>]) \<and>
   raised_by ext = None \<and> outcome_after p ext = (None, Some m)"
proof (induction arbitrary: pre p rule: loop_trace.induct)
  case (repaired n mx m' g' s rest)
  show ?case
  proof (cases "length pre < 3")
    case True
    with repaired.prems repaired.hyps show ?thesis
      by (auto simp: Cons_eq_append_conv)
  next
    case False
    with repaired.prems(1) obtain pre'' where
      pre: "pre = Execute s (Inr (None, Some m')) #
                  Append \<lparr>attempt = n + 1, sql = s, attempt_error = m'\<rparr> #
                  Improve s m' (Inr g') # pre''"
      and rest: "rest = pre'' @ Improve f m (Inr g) # post"
      by (auto simp: Cons_eq_append_conv)
    from repaired.IH [OF rest repaired.prems(2), of "(None, Some m')"] pre rest
    show ?thesis by auto
  qed
qed (auto simp: Cons_eq_append_conv)

lemma loop_trace_failed_execution:
  "loop_trace mx n s ext \<Longrightarrow> ext = pre @ Execute f (Inr (res, Some m)) # post \<Longrightarrow>
   \<exists>k imp post'. post = Append \<lparr>attempt = k, sql = f, attempt_error = m\<rparr> # Improve f m imp # post'"
proof (induction arbitrary: pre rule: loop_trace.induct)
  case (repaired n mx m' g' s rest)
  then show ?case by (auto simp: Cons_eq_append_conv)
qed (auto simp: Cons_eq_append_conv)

lemma loop_trace_append:
  "loop_trace mx n s ext \<Longrightarrow> ext = pre @ Append a # post \<Longrightarrow>
   \<exists>pre'. pre = pre' @ [Execute (sql a) (Inr (None, Some (attempt_error a)))]"
proof (induction arbitrary: pre rule: loop_trace.induct)
  case (repaired n mx m' g' s rest)
  show ?case
  proof (cases "length pre < 3")
    case True
    with repaired.prems repaired.hyps show ?thesis
      by (auto simp: Cons_eq_append_conv)
  next
    case False
    with repaired.prems(1) obtain pre'' where
      pre: "pre = Execute s (Inr (None, Some m')) #
                  Append \<lparr>attempt = n + 1, sql = s, attempt_error = m'\<rparr> #
                  Improve s m' (Inr g') # pre''"
      and rest: "rest = pre'' @ Append a # post"
      by (auto simp: Cons_eq_append_conv)
    from repaired.IH [OF rest] pre show ?thesis by auto
  qed
qed (auto simp: Cons_eq_append_conv)


lemma loop_trace_numbers:
  "loop_trace mx n s ext \<Longrightarrow>
   map attempt (appended ext) = map (\<lambda>i. n + 1 + int i) [0..<length (appended ext)]"
proof (induction rule: loop_trace.induct)
  case (repaired n mx m g s rest)
  have "[0..<Suc (length (appended rest))] = 0 # map Suc [0..<length (appended rest)]"
    by (simp add: upt_conv_Cons map_Suc_upt del: upt_Suc)
  with repaired.IH show ?case by (simp add: comp_def add.assoc add.commute del: upt_Suc)
qed auto

lemma loop_trace_outcome:
  "loop_trace mx n s ext \<Longrightarrow> raised_by ext = None \<Longrightarrow> outcome_after p ext = (res, err) \<Longrightarrow>
   n < mx \<or> (snd p = None) = (fst p \<noteq> None) \<Longrightarrow> (err = None) = (res \<noteq> None)"
proof (induction arbitrary: p rule: loop_trace.induct)
  case (repaired n mx m g s rest)
  from repaired.IH [of "(None, Some m)"] repaired.prems show ?case by auto
qed auto

section \<open>The runs of \<open>process_query\<close>\<close>

lemma process_query_cases:
  assumes "process_query self env w q = (outcome, w', tr)"
  obtains
    (generation_raised) e where "outcome = Inl e" "tr = [Generate (Inl e)]"
  | (no_sql) g where "sql_query g = []" "tr = [Generate (Inr g)]"
      "outcome = Inr \<lparr>natural_query = q, generated_sql = [],
                     final_explanation = ''Failed to generate SQL: '' @ explanation g,
                     query_result = None,
                     final_error = Some ''Could not generate SQL query'',
                     improvement_history = None\<rparr>"
  | (loop_raised) g ext e where "sql_query g \<noteq> []" "tr = Generate (Inr g) # ext"
      "loop_trace (max_retries self) 0 (sql_query g) ext" "raised_by ext = Some e" "outcome = Inl e"
  | (returned) g ext r where "sql_query g \<noteq> []" "tr = Generate (Inr g) # ext"
      "loop_trace (max_retries self) 0 (sql_query g) ext" "raised_by ext = None" "outcome = Inr r"
      "(query_result r, final_error r) = outcome_after (None, None) ext"
      "attempts_of r = appended ext"
      "improvement_history r = (if appended ext \<noteq> [] then Some (appended ext) else None)"
proof -
  obtain g0 w0 where gen: "generate_sql self env w \<lparr>query = q, request_context = None\<rparr> None = (g0, w0)"
    by (cases "generate_sql self env w \<lparr>query = q, request_context = None\<rparr> None")
  show ?thesis
  proof (cases g0)
    case (Inl e)
    with gen assms show ?thesis using generation_raised [of e] by (simp add: process_query_def)
  next
    case (Inr g)
    show ?thesis
    proof (cases "sql_query g = []")
      case True
      with gen Inr assms show ?thesis using no_sql [of g] by (simp add: process_query_def)
    next
      case False
      let ?st0 = "\<lparr>attempts = 0, current_sql = sql_query g,
                        current_explanation = explanation g,
                        result = None, error = None, history = [], world = w0,
                        trace = [Generate (Inr g)]\<rparr>"
      obtain x st where loop: "repair_loop self env q ?st0 = (x, st)"
        by (cases "repair_loop self env q ?st0")
      from repair_loop_trace [OF loop] obtain ext where ext:
        "trace st = Generate (Inr g) # ext"
        "loop_trace (max_retries self) 0 (sql_query g) ext"
        "history st = appended ext"
        "(result st, error st) = outcome_after (None, None) ext"
        "x = raised_by ext"
        by auto
      show ?thesis
      proof (cases x)
        case None
        with ext have rb: "raised_by ext = None" by simp
        from gen Inr False loop assms None have
          "outcome = Inr \<lparr>natural_query = q, generated_sql = current_sql st,
                          final_explanation = current_explanation st,
                          query_result = result st,
                          final_error = error st,
                          improvement_history = (if history st \<noteq> [] then Some (history st) else None)\<rparr>"
          "tr = trace st"
          by (simp_all add: process_query_def)
        with ext rb show ?thesis
          using returned [of g ext] False by (simp add: attempts_of_def)
      next
        case (Some e)
        with ext have rb: "raised_by ext = Some e" by simp
        from gen Inr False loop assms Some have "outcome = Inl e" "tr = trace st"
          by (simp_all add: process_query_def)
        with ext rb show ?thesis
          using loop_raised [of g ext e] False by simp
      qed
    qed
  qed
qed

text \<open>Concrete runs, evaluated once for the instances below.\<close>

lemma run_stagnant:
  "process_query (agent 3) scripted stagnant_world ''customer names'' =
     (Inr \<lparr>natural_query = ''customer names'', generated_sql = ''SELECT nme FROM customers'',
           final_explanation = ''Extracted SQL query from text'',
           query_result = None,
           final_error = Some ''SQL execution error: no such column: nme'',
           improvement_history =
             Some [\<lparr>attempt = 1, sql = ''SELECT nme FROM customers'',
                    attempt_error = ''SQL execution error: no such column: nme''\<rparr>]\<rparr>,
      ([], []),
      [Generate (Inr \<lparr>sql_query = ''SELECT nme FROM customers'',
                      explanation = ''Extracted SQL query from text''\<rparr>),
       Execute ''SELECT nme FROM customers'' (Inr (None, Some ''SQL execution error: no such column: nme'')),
       Append \<lparr>attempt = 1, sql = ''SELECT nme FROM customers'',
               attempt_error = ''SQL execution error: no such column: nme''\<rparr>,
       Improve ''SELECT nme FROM customers'' ''SQL execution error: no such column: nme''
         (Inr \<lparr>sql_query = ''SELECT nme FROM customers'',
               explanation = ''Extracted SQL query from text''\<rparr>)])"
  by code_simp

lemma run_repaired:
  "process_query (agent 3) scripted repaired_world ''Show me all customers'' =
     (Inr \<lparr>natural_query = ''Show me all customers'', generated_sql = ''SELECT * FROM customers;'',
           final_explanation = ''All customers\<newline>\<newline>Improved SQL (attempt 1): Fixed the table name'',
           query_result = Some \<lparr>columns = [''customer_id'', ''age''], rows = [[1, 34], [2, 51]], row_count = 2\<rparr>,
           final_error = None,
           improvement_history =
             Some [\<lparr>attempt = 1, sql = ''SELECT * FROM custmers;'',
                    attempt_error = ''SQL execution error: no such table: custmers''\<rparr>]\<rparr>,
      ([], []),
      [Generate (Inr \<lparr>sql_query = ''SELECT * FROM custmers;'', explanation = ''All customers''\<rparr>),
       Execute ''SELECT * FROM custmers;'' (Inr (None, Some ''SQL execution error: no such table: custmers'')),
       Append \<lparr>attempt = 1, sql = ''SELECT * FROM custmers;'',
               attempt_error = ''SQL execution error: no such table: custmers''\<rparr>,
       Improve ''SELECT * FROM custmers;'' ''SQL execution error: no such table: custmers''
         (Inr \<lparr>sql_query = ''SELECT * FROM customers;'', explanation = ''Fixed the table name''\<rparr>),
       Execute ''SELECT * FROM customers;''
         (Inr (Some \<lparr>columns = [''customer_id'', ''age''], rows = [[1, 34], [2, 51]], row_count = 2\<rparr>, None))])"
  by code_simp

lemma run_failing:
  "process_query (agent 2) scripted failing_world ''a of t'' =
     (Inr \<lparr>natural_query = ''a of t'', generated_sql = ''SELECT c FROM t'',
           final_explanation = ''Extracted SQL query from text\<newline>\<newline>Improved SQL (attempt 1): Extracted SQL query from text\<newline>\<newline>Improved SQL (attempt 2): Extracted SQL query from text'',
           query_result = None,
           final_error = Some ''SQL execution error: database is locked'',
           improvement_history =
             Some [\<lparr>attempt = 1, sql = ''SELECT a FROM t'',
                    attempt_error = ''SQL execution error: database is locked''\<rparr>,
                   \<lparr>attempt = 2, sql = ''SELECT b FROM t'',
                    attempt_error = ''SQL execution error: database is locked''\<rparr>]\<rparr>,
      ([], []),
      [Generate (Inr \<lparr>sql_query = ''SELECT a FROM t'', explanation = ''Extracted SQL query from text''\<rparr>),
       Execute ''SELECT a FROM t'' (Inr (None, Some ''SQL execution error: database is locked'')),
       Append \<lparr>attempt = 1, sql = ''SELECT a FROM t'',
               attempt_error = ''SQL execution error: database is locked''\<rparr>,
       Improve ''SELECT a FROM t'' ''SQL execution error: database is locked''
         (Inr \<lparr>sql_query = ''SELECT b FROM t'', explanation = ''Extracted SQL query from text''\<rparr>),
       Execute ''SELECT b FROM t'' (Inr (None, Some ''SQL execution error: database is locked'')),
       Append \<lparr>attempt = 2, sql = ''SELECT b FROM t'',
               attempt_error = ''SQL execution error: database is locked''\<rparr>,
       Improve ''SELECT b FROM t'' ''SQL execution error: database is locked''
         (Inr \<lparr>sql_query = ''SELECT c FROM t'', explanation = ''Extracted SQL query from text''\<rparr>)])"
  by code_simp

lemma generate_refused:
  "generate_sql (agent 3) scripted refused_world \<lparr>query = ''anything'', request_context = None\<rparr> None =
     (Inr \<lparr>sql_query = [], explanation = ''Error generating SQL: connection refused''\<rparr>, ([], []))"
  by code_simp

lemma generate_unrun:
  "generate_sql (agent 0) scripted failing_world \<lparr>query = ''a of t'', request_context = None\<rparr> None =
     (Inr \<lparr>sql_query = ''SELECT a FROM t'', explanation = ''Extracted SQL query from text''\<rparr>,
      ([Content ''SELECT b FROM t;'', Content ''SELECT c FROM t;''], []))"
  by code_simp

section \<open>The claims about the repair loop\<close>

text \<open>
  C1. In every run of \<open>process_query\<close>, a repair that returns an empty \<open>sql_query\<close> or
  the very SQL that just failed is the last event of the run: nothing is generated or
  executed after it. The two events before it are the failed execution of that SQL and
  the append of its record, the run returns a response, and the response carries no
  result and, as its error, the message of that execution. In particular, when the
  first repair returns the SQL of the initial generation, the response holds exactly one
  attempt record, numbered 1, with that SQL and that message.
\<close>

theorem stagnant_repair_halts:
  assumes run: "process_query self env w q = (outcome, w', tr)"
  shows "(\<forall>pre f m g post.
            tr = pre @ Improve f m (Inr g) # post \<and> (sql_query g = [] \<or> sql_query g = f) \<longrightarrow>
            post = [] \<and>
            (\<exists>pre' k. pre = pre' @ [Execute f (Inr (None, Some m)),
                                     Append \<lparr>attempt = k, sql = f, attempt_error = m\<rparr>]) \<and>
            (\<exists>r. outcome = Inr r \<and> final_error r = Some m \<and> query_result r = None)) \<and>
         (\<forall>g0 x a f m g1 post.
            tr = Generate (Inr g0) # x # a # Improve f m (Inr g1) # post \<and>
            sql_query g1 = sql_query g0 \<longrightarrow>
            (\<exists>r. outcome = Inr r \<and>
                 attempts_of r = [\<lparr>attempt = 1, sql = sql_query g0, attempt_error = m\<rparr>]))"
proof -
  have general: "post = [] \<and>
      (\<exists>pre' k. pre = pre' @ [Execute f (Inr (None, Some m)),
                               Append \<lparr>attempt = k, sql = f, attempt_error = m\<rparr>]) \<and>
      (\<exists>r. outcome = Inr r \<and> final_error r = Some m \<and> query_result r = None)"
    if at: "tr = pre @ Improve f m (Inr g) # post" and stag: "sql_query g = [] \<or> sql_query g = f"
    for pre f m g post
    using run
  proof (cases rule: process_query_cases)
    case (generation_raised e)
    with at show ?thesis by (auto simp: Cons_eq_append_conv append_eq_Cons_conv)
  next
    case (no_sql g')
    with at show ?thesis by (auto simp: Cons_eq_append_conv append_eq_Cons_conv)
  next
    case (loop_raised g' ext e)
    from loop_raised(2) at obtain pre1 where pre1: "pre = Generate (Inr g') # pre1"
      "ext = pre1 @ Improve f m (Inr g) # post"
      by (cases pre) auto
    from loop_trace_stagnant [OF loop_raised(3) pre1(2) stag] loop_raised(4)
    show ?thesis by simp
  next
    case (returned g' ext r)
    from returned(2) at obtain pre1 where pre1: "pre = Generate (Inr g') # pre1"
      "ext = pre1 @ Improve f m (Inr g) # post"
      by (cases pre) auto
    from loop_trace_stagnant [OF returned(3) pre1(2) stag, of "(None, None)"]
    have "post = []"
      "\<exists>pre' k. pre1 = pre' @ [Execute f (Inr (None, Some m)),
                               Append \<lparr>attempt = k, sql = f, attempt_error = m\<rparr>]"
      "outcome_after (None, None) ext = (None, Some m)"
      by auto
    with returned(5,6) pre1(1) show ?thesis by auto
  qed
  have first: "\<exists>r. outcome = Inr r \<and>
                 attempts_of r = [\<lparr>attempt = 1, sql = sql_query g0, attempt_error = m\<rparr>]"
    if at: "tr = Generate (Inr g0) # x # a # Improve f m (Inr g1) # post"
      and same: "sql_query g1 = sql_query g0"
    for g0 x a f m g1 post
    using run
  proof (cases rule: process_query_cases)
    case (generation_raised e)
    with at show ?thesis by simp
  next
    case (no_sql g')
    with at show ?thesis by simp
  next
    case (loop_raised g' ext e)
    with at have ext: "ext = x # a # Improve f m (Inr g1) # post" "g' = g0" by auto
    from loop_raised(3) ext same have "raised_by ext = None"
      by (cases rule: loop_trace.cases) auto
    with loop_raised(4) show ?thesis by simp
  next
    case (returned g' ext r)
    with at have ext: "ext = x # a # Improve f m (Inr g1) # post" "g' = g0" by auto
    from returned(3) ext same have "appended ext = [\<lparr>attempt = 1, sql = sql_query g0, attempt_error = m\<rparr>]"
      by (cases rule: loop_trace.cases) auto
    with returned(5,7) show ?thesis by simp
  qed
  from general first show ?thesis by blast
qed

theorem stagnant_repair_halts_witness:
  "\<exists>r. fst (process_query (agent 3) scripted stagnant_world ''customer names'') = Inr r \<and>
       final_error r = Some ''SQL execution error: no such column: nme'' \<and>
       query_result r = None \<and>
       attempts_of r = [\<lparr>attempt = 1, sql = ''SELECT nme FROM customers'',
                         attempt_error = ''SQL execution error: no such column: nme''\<rparr>]"
proof -
  let ?g = "\<lparr>sql_query = ''SELECT nme FROM customers'', explanation = ''Extracted SQL query from text''\<rparr>"
  let ?m = "''SQL execution error: no such column: nme''"
  let ?x = "Execute ''SELECT nme FROM customers'' (Inr (None, Some ?m)) :: int event"
  let ?a = "Append \<lparr>attempt = 1, sql = ''SELECT nme FROM customers'', attempt_error = ?m\<rparr> :: int event"
  note h = stagnant_repair_halts [OF run_stagnant, THEN conjunct1, rule_format,
      of "[Generate (Inr ?g), ?x, ?a]" "''SELECT nme FROM customers''" ?m ?g "[]"]
  have "\<exists>r :: int SQLAgentResponse. fst (process_query (agent 3) scripted stagnant_world ''customer names'') = Inr r \<and>
        final_error r = Some ?m \<and> query_result r = None"
    using h by (simp add: run_stagnant)
  then show ?thesis
    by (auto simp: run_stagnant attempts_of_def)
qed

text \<open>
  C2. In every run of \<open>process_query\<close>, whether it returns or raises: an execution
  that returns a failure is followed at once by the append of one record holding its SQL
  and its message, and that append by the repair call for them; every append comes
  directly after the failed execution it records, so a successful execution and a repair
  call append nothing; and the history of a returned response is the list of the
  records appended during the run, in order.
\<close>

theorem failed_execution_recorded_once:
  assumes run: "process_query self env w q = (outcome, w', tr)"
  shows "(\<forall>pre f res m post.
            tr = pre @ Execute f (Inr (res, Some m)) # post \<longrightarrow>
            (\<exists>k imp post'. post = Append \<lparr>attempt = k, sql = f, attempt_error = m\<rparr> #
                                   Improve f m imp # post')) \<and>
         (\<forall>pre a post.
            tr = pre @ Append a # post \<longrightarrow>
            (\<exists>pre'. pre = pre' @ [Execute (sql a) (Inr (None, Some (attempt_error a)))])) \<and>
         (\<forall>r. outcome = Inr r \<longrightarrow> attempts_of r = appended tr)"
proof -
  have a: "\<exists>k imp post'. post = Append \<lparr>attempt = k, sql = f, attempt_error = m\<rparr> # Improve f m imp # post'"
    if at: "tr = pre @ Execute f (Inr (res, Some m)) # post" for pre f res m post
    using run
  proof (cases rule: process_query_cases)
    case (loop_raised g ext e)
    with at obtain pre1 where "ext = pre1 @ Execute f (Inr (res, Some m)) # post"
      by (cases pre) auto
    from loop_trace_failed_execution [OF loop_raised(3) this] show ?thesis .
  next
    case (returned g ext r)
    with at obtain pre1 where "ext = pre1 @ Execute f (Inr (res, Some m)) # post"
      by (cases pre) auto
    from loop_trace_failed_execution [OF returned(3) this] show ?thesis .
  qed (use at in \<open>auto simp: Cons_eq_append_conv append_eq_Cons_conv\<close>)
  have b: "\<exists>pre'. pre = pre' @ [Execute (sql a) (Inr (None, Some (attempt_error a)))]"
    if at: "tr = pre @ Append a # post" for pre a post
    using run
  proof (cases rule: process_query_cases)
    case (loop_raised g ext e)
    with at obtain pre1 where pre1: "pre = Generate (Inr g) # pre1" "ext = pre1 @ Append a # post"
      by (cases pre) auto
    from loop_trace_append [OF loop_raised(3) pre1(2)] pre1(1) show ?thesis by auto
  next
    case (returned g ext r)
    with at obtain pre1 where pre1: "pre = Generate (Inr g) # pre1" "ext = pre1 @ Append a # post"
      by (cases pre) auto
    from loop_trace_append [OF returned(3) pre1(2)] pre1(1) show ?thesis by auto
  qed (use at in \<open>auto simp: Cons_eq_append_conv append_eq_Cons_conv\<close>)
  have c: "attempts_of r = appended tr" if "outcome = Inr r" for r
    using run
  proof (cases rule: process_query_cases)
    case (no_sql g)
    with that show ?thesis by (auto simp: attempts_of_def)
  qed (use that in auto)
  from a b c show ?thesis by blast
qed

theorem failed_execution_recorded_once_witness:
  "\<exists>r tr post.
     process_query (agent 3) scripted repaired_world ''Show me all customers'' = (Inr r, ([], []), tr) \<and>
     tr = [Generate (Inr \<lparr>sql_query = ''SELECT * FROM custmers;'', explanation = ''All customers''\<rparr>)] @
          Execute ''SELECT * FROM custmers;'' (Inr (None, Some ''SQL execution error: no such table: custmers'')) #
          Append \<lparr>attempt = 1, sql = ''SELECT * FROM custmers;'',
                  attempt_error = ''SQL execution error: no such table: custmers''\<rparr> #
          Improve ''SELECT * FROM custmers;'' ''SQL execution error: no such table: custmers''
            (Inr \<lparr>sql_query = ''SELECT * FROM customers;'', explanation = ''Fixed the table name''\<rparr>) # post \<and>
     attempts_of r = appended tr \<and>
     attempts_of r = [\<lparr>attempt = 1, sql = ''SELECT * FROM custmers;'',
                       attempt_error = ''SQL execution error: no such table: custmers''\<rparr>]"
proof -
  note h = failed_execution_recorded_once [OF run_repaired, THEN conjunct2, THEN conjunct2, rule_format, OF refl]
  show ?thesis
    using h by (simp add: run_repaired attempts_of_def)
qed



text \<open>
  C9. A response returned by an agent with \<open>max_retries \<ge> 1\<close> has an error exactly
  when it has no query result. With \<open>max_retries \<le> 0\<close> and a non-empty generated
  SQL, the loop is never entered: the response has neither, and nothing was executed.
\<close>

theorem result_xor_error:
  "(process_query self env w q = (Inr r, w', tr) \<and> 1 \<le> max_retries self \<longrightarrow>
      (final_error r = None \<longleftrightarrow> query_result r \<noteq> None)) \<and>
   (generate_sql self env w \<lparr>query = q, request_context = None\<rparr> None = (Inr g, w0) \<and>
    sql_query g \<noteq> [] \<and> max_retries self \<le> 0 \<longrightarrow>
      process_query self env w q =
        (Inr \<lparr>natural_query = q, generated_sql = sql_query g, final_explanation = explanation g,
              query_result = None, final_error = None, improvement_history = None\<rparr>,
         w0, [Generate (Inr g)]))"
proof (rule conjI; rule impI)
  assume a: "process_query self env w q = (Inr r, w', tr) \<and> 1 \<le> max_retries self"
  then have run: "process_query self env w q = (Inr r, w', tr)" and mx: "0 < max_retries self"
    by auto
  from run show "final_error r = None \<longleftrightarrow> query_result r \<noteq> None"
  proof (cases rule: process_query_cases)
    case (returned g ext r')
    obtain res err where o: "outcome_after (None, None) ext = (res, err)"
      by (cases "outcome_after (None, None) ext")
    from loop_trace_outcome [OF returned(3,4) o] mx have "(err = None) = (res \<noteq> None)" by simp
    with returned(5,6) o show ?thesis by auto
  qed auto
next
  assume a: "generate_sql self env w \<lparr>query = q, request_context = None\<rparr> None = (Inr g, w0) \<and>
    sql_query g \<noteq> [] \<and> max_retries self \<le> 0"
  then show "process_query self env w q =
        (Inr \<lparr>natural_query = q, generated_sql = sql_query g, final_explanation = explanation g,
              query_result = None, final_error = None, improvement_history = None\<rparr>,
         w0, [Generate (Inr g)])"
    by (simp add: process_query_def repair_loop.simps)
qed

theorem result_xor_error_witness:
  "(\<exists>r. fst (process_query (agent 3) scripted repaired_world ''Show me all customers'') = Inr r \<and>
        (1::int) \<le> max_retries (agent 3) \<and> final_error r = None \<and> query_result r \<noteq> None) \<and>
   (\<exists>r. fst (process_query (agent 2) scripted failing_world ''a of t'') = Inr r \<and>
        (1::int) \<le> max_retries (agent 2) \<and> final_error r \<noteq> None \<and> query_result r = None) \<and>
   (\<exists>r. fst (process_query (agent 0) scripted failing_world ''a of t'') = Inr r \<and>
        max_retries (agent 0) \<le> 0 \<and> final_error r = None \<and> query_result r = None)"
proof -
  have m3: "1 \<le> max_retries (agent 3)" and m2: "1 \<le> max_retries (agent 2)"
    and m0: "max_retries (agent 0) \<le> 0"
    by (simp_all add: agent_def)
  note h1 = result_xor_error [THEN conjunct1, rule_format, OF conjI, OF run_repaired m3]
  note h2 = result_xor_error [THEN conjunct1, rule_format, OF conjI, OF run_failing m2]
  have g: "sql_query \<lparr>sql_query = ''SELECT a FROM t'', explanation = ''Extracted SQL query from text''\<rparr> \<noteq> []"
    by simp
  note h3 = result_xor_error [THEN conjunct2, rule_format, OF conjI, OF generate_unrun conjI, OF g m0]
  show ?thesis
    using h1 h2 m3 m2 m0 by (simp add: run_repaired run_failing h3)
qed

text \<open>
  C10. The attempt numbers of a returned response are \<open>1, 2, ..., k\<close> in order, \<open>k\<close>
  the length of the history: the number of each record is one more than the number of
  records before it.
\<close>

theorem attempt_numbers_consecutive:
  assumes run: "process_query self env w q = (Inr r, w', tr)"
  shows "map attempt (attempts_of r) = map int [1..<Suc (length (attempts_of r))] \<and>
         (\<forall>i<length (attempts_of r). attempt (attempts_of r ! i) = int (length (take i (attempts_of r))) + 1)"
proof -
  have nums: "map attempt (attempts_of r) = map (\<lambda>i. 1 + int i) [0..<length (attempts_of r)]"
    using run
  proof (cases rule: process_query_cases)
    case (no_sql g)
    then show ?thesis by (auto simp: attempts_of_def)
  next
    case (returned g ext r')
    from loop_trace_numbers [OF returned(3)] returned(5,7) show ?thesis by simp
  qed auto
  have "map (\<lambda>i. 1 + int i) [0..<n] = map int [1..<Suc n]" for n
    by (induction n) auto
  with nums have first: "map attempt (attempts_of r) = map int [1..<Suc (length (attempts_of r))]"
    by simp
  have "attempt (attempts_of r ! i) = int (length (take i (attempts_of r))) + 1"
    if "i < length (attempts_of r)" for i
  proof -
    from that have "attempt (attempts_of r ! i) = map attempt (attempts_of r) ! i" by simp
    also have "\<dots> = map (\<lambda>i. 1 + int i) [0..<length (attempts_of r)] ! i" by (simp only: nums)
    also from that have "\<dots> = 1 + int i" by simp
    finally show ?thesis using that by simp
  qed
  with first show ?thesis by blast
qed

theorem attempt_numbers_consecutive_witness:
  "\<exists>r. fst (process_query (agent 2) scripted failing_world ''a of t'') = Inr r \<and>
       map attempt (attempts_of r) = [1, 2]"
proof -
  note h = attempt_numbers_consecutive [OF run_failing, THEN conjunct1]
  have "[1..<Suc (Suc (Suc 0))] = [1, 2]" by (simp add: upt_rec)
  with h show ?thesis
    by (simp add: run_failing attempts_of_def)
qed

text \<open>
  C6. When the first generation returns an empty \<open>sql_query\<close>, \<open>process_query\<close> returns
  at once: the trace holds the generation and nothing else (no execution, no repair),
  the error is \<open>Could not generate SQL query\<close>, there is no query result and no
  attempt record.
\<close>

theorem empty_first_generation:
  assumes gen: "generate_sql self env w \<lparr>query = q, request_context = None\<rparr> None = (Inr g, w0)"
      and empty: "sql_query g = []"
  shows "\<exists>r. process_query self env w q = (Inr r, w0, [Generate (Inr g)]) \<and>
             final_error r = Some ''Could not generate SQL query'' \<and>
             query_result r = None \<and>
             improvement_history r = None \<and> attempts_of r = [] \<and>
             generated_sql r = [] \<and>
             final_explanation r = ''Failed to generate SQL: '' @ explanation g \<and>
             natural_query r = q"
  using gen empty by (simp add: process_query_def attempts_of_def)

theorem empty_first_generation_witness:
  "\<exists>r. process_query (agent 3) scripted refused_world ''anything'' =
         (Inr r, ([], []),
          [Generate (Inr \<lparr>sql_query = [], explanation = ''Error generating SQL: connection refused''\<rparr>)]) \<and>
       final_error r = Some ''Could not generate SQL query'' \<and>
       query_result r = None \<and> attempts_of r = [] \<and>
       final_explanation r = ''Failed to generate SQL: Error generating SQL: connection refused''"
proof -
  have e: "sql_query \<lparr>sql_query = [], explanation = ''Error generating SQL: connection refused''\<rparr> = []"
    by simp
  from empty_first_generation [OF generate_refused e] show ?thesis
    by auto
qed

section \<open>The claims about the response parser\<close>






















section \<open>An exception that escapes \<open>process_query\<close>\<close>

text \<open>
  C5. \<open>process_query\<close> does not always return a response. A completion whose JSON
  holds \<open>null\<close> under \<open>sql_query\<close> passes the parser (method 3 returns the decoded
  values as they are), and the constructor of \<open>SQLGenerationResponse\<close> in
  \<open>SQLAgent.generate_sql\<close> raises on it, outside every \<open>try\<close>: the run ends with the
  exception and no response.
\<close>

theorem null_sql_query_raises:
  "process_query (agent 3) scripted null_world ''What is the weather in Paris?'' =
     (Inl ValidationError, ([], []), [Generate (Inl ValidationError)])"
  by code_simp

end
